theory Spec2Isabelle
  imports Complex_Main "HOL-Library.Sublist"
begin

section \<open>Strings\<close>

text \<open>
  A JavaScript string is modelled as the byte string of its UTF-8 encoding, so the two
  operator labels outside ASCII take two bytes each. The program concatenates, compares,
  searches and splits strings, which read the same on the encoding; it measures only
  \<open>displayValue.length\<close>, and every character it ever puts into \<open>displayValue\<close> is ASCII.
\<close>

definition divide_label :: string where
  "divide_label = [CHR 0xC3, CHR 0xB7]"

definition times_label :: string where
  "times_label = [CHR 0xC3, CHR 0x97]"

definition infinity_sign :: string where
  "infinity_sign = [CHR 0xE2, CHR 0x88, CHR 0x9E]"

text \<open>\<open>s.includes(t)\<close>: \<open>t\<close> occurs in \<open>s\<close> as a contiguous substring.\<close>

fun includes_str :: "string \<Rightarrow> string \<Rightarrow> bool" where
  "includes_str [] t = (t = [])"
| "includes_str (c # s) t = (prefix t (c # s) \<or> includes_str s t)"

text \<open>\<open>s.split(sep)\<close> for a separator of one character: the pieces between the separators.\<close>

fun split_str :: "char \<Rightarrow> string \<Rightarrow> string list" where
  "split_str sep [] = [[]]"
| "split_str sep (c # s) =
     (if c = sep then [] # split_str sep s
      else (case split_str sep s of p # ps \<Rightarrow> (c # p) # ps | [] \<Rightarrow> [[c]]))"

definition is_digit :: "char \<Rightarrow> bool" where
  "is_digit c = (c \<in> set ''0123456789'')"

definition digit_char :: "nat \<Rightarrow> char" where
  "digit_char d = ''0123456789'' ! d"

definition digit_value :: "char \<Rightarrow> nat" where
  "digit_value c = of_char c - 48"

text \<open>The value of a string of decimal digits, and the decimal digits of a natural number.\<close>

definition digits_value :: "string \<Rightarrow> nat" where
  "digits_value ds = foldl (\<lambda>n c. 10 * n + digit_value c) 0 ds"

fun digits10 :: "nat \<Rightarrow> string" where
  "digits10 n = (if n < 10 then [digit_char n] else digits10 (n div 10) @ [digit_char (n mod 10)])"

declare digits10.simps [simp del]

section \<open>Numbers\<close>

text \<open>
  A JavaScript number is an IEEE 754 binary64 value: not-a-number, an infinity with its sign,
  or a finite value given by its sign (\<open>True\<close> is negative) and its magnitude, an exact
  rational. \<open>Fin True 0\<close> is the negative zero.
\<close>

datatype number = NaN | Inf bool | Fin bool rat

abbreviation Infinity :: number where
  "Infinity \<equiv> Inf False"

text \<open>\<open>ndigits b n\<close> is the number of digits of \<open>n\<close> in base \<open>b\<close>; \<open>ilog b a\<close> is the integer
  \<open>k\<close> with \<open>b ^ k \<le> a < b ^ (k + 1)\<close>, for a positive rational \<open>a\<close>.\<close>

fun ndigits :: "nat \<Rightarrow> nat \<Rightarrow> nat" where
  "ndigits b n = (if n = 0 \<or> b < 2 then 0 else Suc (ndigits b (n div b)))"

declare ndigits.simps [simp del]

definition ilog :: "nat \<Rightarrow> rat \<Rightarrow> int" where
  "ilog b a =
     (if 1 \<le> a then int (ndigits b (nat \<lfloor>a\<rfloor>)) - 1
      else - int (ndigits b (nat (\<lceil>1 / a\<rceil> - 1))))"

definition round_half_even :: "rat \<Rightarrow> int" where
  "round_half_even q =
     (let f = \<lfloor>q\<rfloor>; d = q - of_int f
      in if d < 1 / 2 then f else if 1 / 2 < d then f + 1 else if even f then f else f + 1)"

text \<open>
  Rounding of an exact magnitude to binary64, to nearest with ties to even: 53 significant
  bits, the least exponent of a unit in the last place is \<open>-1074\<close>, and a result of
  \<open>2 ^ 1024\<close> or more is an infinity. The sign is passed through, also to a zero.
\<close>

definition round64 :: "bool \<Rightarrow> rat \<Rightarrow> number" where
  "round64 sg a =
     (if a = 0 then Fin sg 0
      else let e = max (ilog 2 a - 52) (- 1074);
               r = of_int (round_half_even (a / 2 powi e)) * 2 powi e
           in if 2 ^ 1024 \<le> r then Inf sg else Fin sg r)"

definition signed :: "bool \<Rightarrow> rat \<Rightarrow> rat" where
  "signed sg a = (if sg then - a else a)"

text \<open>The operators \<open>+\<close>, \<open>-\<close>, \<open>*\<close> and \<open>/\<close> of JavaScript on numbers.\<close>

fun js_add :: "number \<Rightarrow> number \<Rightarrow> number" where
  "js_add NaN y = NaN"
| "js_add x NaN = NaN"
| "js_add (Inf s) (Inf t) = (if s = t then Inf s else NaN)"
| "js_add (Inf s) (Fin t b) = Inf s"
| "js_add (Fin s a) (Inf t) = Inf t"
| "js_add (Fin s a) (Fin t b) =
     (let r = signed s a + signed t b
      in if r = 0 then Fin (s \<and> t) 0 else round64 (r < 0) \<bar>r\<bar>)"

fun js_neg :: "number \<Rightarrow> number" where
  "js_neg NaN = NaN"
| "js_neg (Inf s) = Inf (\<not> s)"
| "js_neg (Fin s a) = Fin (\<not> s) a"

definition js_sub :: "number \<Rightarrow> number \<Rightarrow> number" where
  "js_sub x y = js_add x (js_neg y)"

fun js_mul :: "number \<Rightarrow> number \<Rightarrow> number" where
  "js_mul NaN y = NaN"
| "js_mul x NaN = NaN"
| "js_mul (Inf s) (Inf t) = Inf (s \<noteq> t)"
| "js_mul (Inf s) (Fin t b) = (if b = 0 then NaN else Inf (s \<noteq> t))"
| "js_mul (Fin s a) (Inf t) = (if a = 0 then NaN else Inf (s \<noteq> t))"
| "js_mul (Fin s a) (Fin t b) = round64 (s \<noteq> t) (a * b)"

fun js_div :: "number \<Rightarrow> number \<Rightarrow> number" where
  "js_div NaN y = NaN"
| "js_div x NaN = NaN"
| "js_div (Inf s) (Inf t) = NaN"
| "js_div (Inf s) (Fin t b) = Inf (s \<noteq> t)"
| "js_div (Fin s a) (Inf t) = Fin (s \<noteq> t) 0"
| "js_div (Fin s a) (Fin t b) =
     (if b = 0 then (if a = 0 then NaN else Inf (s \<noteq> t)) else round64 (s \<noteq> t) (a / b))"

text \<open>\<open>x === 0\<close>: true of both zeros, false of every other number.\<close>

fun is_zero :: "number \<Rightarrow> bool" where
  "is_zero (Fin s a) = (a = 0)"
| "is_zero x = False"

section \<open>Numbers to strings and back\<close>

text \<open>
  \<open>String(x)\<close> is \<open>Number::toString\<close> of ECMA-262 in radix 10. For a finite \<open>x\<close> other than
  zero it takes the least number \<open>k\<close> of significant digits for which some decimal
  \<open>s * 10 ^ e\<close> of \<open>k\<close> digits rounds to \<open>x\<close>, and among those decimals the one nearest
  to \<open>x\<close>, the even one in a tie. At \<open>k\<close> digits the only decimals to try are the two that
  enclose \<open>x\<close>. Seventeen digits always identify a binary64 value, so the search stops there.
\<close>

definition nearer :: "rat \<Rightarrow> int \<Rightarrow> nat \<Rightarrow> nat" where
  "nearer a e lo =
     (let below = a - of_nat lo * 10 powi e; above = of_nat (Suc lo) * 10 powi e - a
      in if below < above then lo else if above < below then Suc lo
         else if even lo then lo else Suc lo)"

function shortest :: "nat \<Rightarrow> rat \<Rightarrow> nat \<times> int" where
  "shortest k a =
     (let e = ilog 10 a + 1 - int k; lo = nat \<lfloor>a / 10 powi e\<rfloor>;
          ok_lo = (round64 False (of_nat lo * 10 powi e) = Fin False a);
          ok_hi = (round64 False (of_nat (Suc lo) * 10 powi e) = Fin False a)
      in if 17 \<le> k \<or> (ok_lo \<and> ok_hi) then (nearer a e lo, e)
         else if ok_lo then (lo, e)
         else if ok_hi then (Suc lo, e)
         else shortest (Suc k) a)"
  by pat_completeness auto
termination
  by (relation "measure (\<lambda>(k, a). 17 - k)") auto

declare shortest.simps [simp del]

text \<open>The digits \<open>s\<close> of the result are not divisible by 10: zeros at the end go to the exponent.\<close>

function strip_zeros :: "nat \<Rightarrow> int \<Rightarrow> nat \<times> int" where
  "strip_zeros s e = (if s \<noteq> 0 \<and> s mod 10 = 0 then strip_zeros (s div 10) (e + 1) else (s, e))"
  by pat_completeness auto
termination
  by (relation "measure (\<lambda>(s, e). s)") auto

declare strip_zeros.simps [simp del]

text \<open>Steps 7 to 11 of \<open>Number::toString\<close>: with \<open>k\<close> digits and \<open>n = e + k\<close>, plain digits
  with zeros appended, digits around a point, \<open>0.\<close> with zeros and the digits, or the
  exponential notation.\<close>

definition format_decimal :: "nat \<Rightarrow> int \<Rightarrow> string" where
  "format_decimal s e =
     (let ds = digits10 s; k = int (length ds); n = e + k
      in if k \<le> n \<and> n \<le> 21 then ds @ replicate (nat (n - k)) CHR ''0''
         else if 0 < n \<and> n \<le> 21 then take (nat n) ds @ ''.'' @ drop (nat n) ds
         else if - 6 < n \<and> n \<le> 0 then ''0.'' @ replicate (nat (- n)) CHR ''0'' @ ds
         else let ex = ''e'' @ (if n - 1 < 0 then ''-'' else ''+'') @ digits10 (nat \<bar>n - 1\<bar>)
              in if k = 1 then ds @ ex else take 1 ds @ ''.'' @ drop 1 ds @ ex)"

definition String :: "number \<Rightarrow> string" where
  "String x =
     (case x of
        NaN \<Rightarrow> ''NaN''
      | Inf sg \<Rightarrow> (if sg then ''-Infinity'' else ''Infinity'')
      | Fin sg a \<Rightarrow>
          if a = 0 then ''0''
          else (if sg then ''-'' else []) @
               (case shortest 1 a of (s, e) \<Rightarrow>
                  (case strip_zeros s e of (s', e') \<Rightarrow> format_decimal s' e')))"

text \<open>
  \<open>parseFloat(string)\<close>: white space at the start is dropped, then the longest prefix that is
  a \<open>StrDecimalLiteral\<close> is read (a sign, then \<open>Infinity\<close> or digits with an optional
  fraction and an optional exponent) and its value rounded; with no such prefix the result
  is \<open>NaN\<close>. \<open>white_space\<close> lists the encodings of the characters \<open>StrWhiteSpaceChar\<close>.
\<close>

definition white_space :: "string list" where
  "white_space =
     [[CHR 0x09], [CHR 0x0A], [CHR 0x0B], [CHR 0x0C], [CHR 0x0D], [CHR 0x20],
      [CHR 0xC2, CHR 0xA0], [CHR 0xE1, CHR 0x9A, CHR 0x80],
      [CHR 0xE2, CHR 0x80, CHR 0x80], [CHR 0xE2, CHR 0x80, CHR 0x81],
      [CHR 0xE2, CHR 0x80, CHR 0x82], [CHR 0xE2, CHR 0x80, CHR 0x83],
      [CHR 0xE2, CHR 0x80, CHR 0x84], [CHR 0xE2, CHR 0x80, CHR 0x85],
      [CHR 0xE2, CHR 0x80, CHR 0x86], [CHR 0xE2, CHR 0x80, CHR 0x87],
      [CHR 0xE2, CHR 0x80, CHR 0x88], [CHR 0xE2, CHR 0x80, CHR 0x89],
      [CHR 0xE2, CHR 0x80, CHR 0x8A], [CHR 0xE2, CHR 0x80, CHR 0xA8],
      [CHR 0xE2, CHR 0x80, CHR 0xA9], [CHR 0xE2, CHR 0x80, CHR 0xAF],
      [CHR 0xE2, CHR 0x81, CHR 0x9F], [CHR 0xE3, CHR 0x80, CHR 0x80],
      [CHR 0xEF, CHR 0xBB, CHR 0xBF]]"

function trimStart :: "string \<Rightarrow> string" where
  "trimStart s =
     (case find (\<lambda>w. prefix w s) white_space of
        None \<Rightarrow> s
      | Some w \<Rightarrow> trimStart (drop (length w) s))"
  by pat_completeness auto
termination
proof (relation "measure length")
  fix s w
  assume "find (\<lambda>w. prefix w s) white_space = Some w"
  then have "w \<in> set white_space" and "prefix w s"
    by (auto simp: find_Some_iff)
  then have "w \<noteq> []" and "length w \<le> length s"
    by (auto simp: white_space_def prefix_length_le)
  then show "(drop (length w) s, s) \<in> measure length"
    by (cases w) auto
qed simp

declare trimStart.simps [simp del]

definition exponent_part :: "string \<Rightarrow> int" where
  "exponent_part r =
     (case r of
        [] \<Rightarrow> 0
      | c # r' \<Rightarrow>
          if c = CHR ''e'' \<or> c = CHR ''E'' then
            (case r' of
               [] \<Rightarrow> 0
             | d # r'' \<Rightarrow>
                 if d = CHR ''-'' then - int (digits_value (takeWhile is_digit r''))
                 else if d = CHR ''+'' then int (digits_value (takeWhile is_digit r''))
                 else int (digits_value (takeWhile is_digit r')))
          else 0)"

definition parseFloat :: "string \<Rightarrow> number" where
  "parseFloat inputString =
     (let trimmed = trimStart inputString;
          neg = (take 1 trimmed = ''-'');
          u = (if take 1 trimmed = ''-'' \<or> take 1 trimmed = ''+'' then drop 1 trimmed else trimmed)
      in if prefix ''Infinity'' u then Inf neg
         else let ip = takeWhile is_digit u;
                  r1 = dropWhile is_digit u;
                  fp = (if take 1 r1 = ''.'' then takeWhile is_digit (drop 1 r1) else []);
                  r2 = (if take 1 r1 = ''.'' then dropWhile is_digit (drop 1 r1) else r1)
              in if ip = [] \<and> fp = [] then NaN
                 else round64 neg (of_nat (digits_value (ip @ fp)) *
                        10 powi (exponent_part r2 - int (length fp))))"

text \<open>
  \<open>x.toLocaleString('en-US', {maximumFractionDigits: 0})\<close>. The runtime formats the
  decimal that \<open>String\<close> prints, the shortest digits that identify the number with zeros
  for the places beyond them, and not the exact binary value. That decimal is rounded to an
  integer, halves away from zero, and its digits are put in groups of three separated by
  commas. A negative number and the negative zero get a minus sign; \<open>NaN\<close> and the infinity
  sign stand for the values that are not finite.
\<close>

function group3 :: "string \<Rightarrow> string" where
  "group3 ds =
     (if length ds \<le> 3 then ds
      else group3 (take (length ds - 3) ds) @ '','' @ drop (length ds - 3) ds)"
  by pat_completeness auto
termination
  by (relation "measure length") auto

declare group3.simps [simp del]

definition toLocaleString :: "number \<Rightarrow> string" where
  "toLocaleString x =
     (case x of
        NaN \<Rightarrow> ''NaN''
      | Inf sg \<Rightarrow> (if sg then ''-'' else []) @ infinity_sign
      | Fin sg a \<Rightarrow>
          (if sg then ''-'' else []) @
          (if a = 0 then ''0''
           else (case shortest 1 a of (s, e) \<Rightarrow>
                   (case strip_zeros s e of (s', e') \<Rightarrow>
                      group3 (digits10 (nat \<lfloor>rat_of_nat s' * 10 powi e' + 1 / 2\<rfloor>))))))"

section \<open>The calculator\<close>

text \<open>
  Modelled from the spec: the type \<open>Operation\<close>, which the source imports from \<open>./types\<close>.
  The specification gives the pending operator as one of add, subtract, multiply and divide;
  these are the four cases of \<open>calculate\<close> and the four labels that \<open>handleButtonClick\<close>
  casts to the type. \<open>symbol\<close> is the string that an operation is at run time.
\<close>

datatype Operation = Add | Subtract | Multiply | Divide

fun symbol :: "Operation \<Rightarrow> string" where
  "symbol Add = ''+''"
| "symbol Subtract = ''-''"
| "symbol Multiply = times_label"
| "symbol Divide = divide_label"

record CalculatorState =
  displayValue :: string
  previousValue :: "number option"
  operation :: "Operation option"
  waitingForOperand :: bool
  history :: string

definition initialState :: CalculatorState where
  "initialState =
     \<lparr>displayValue = ''0'', previousValue = None, operation = None,
      waitingForOperand = False, history = []\<rparr>"

fun calculate :: "number \<Rightarrow> number \<Rightarrow> Operation \<Rightarrow> number" where
  "calculate val1 val2 Add = js_add val1 val2"
| "calculate val1 val2 Subtract = js_sub val1 val2"
| "calculate val1 val2 Multiply = js_mul val1 val2"
| "calculate val1 val2 Divide = (if is_zero val2 then Infinity else js_div val1 val2)"

text \<open>
  \<open>const [integer, decimal] = value.split('.')\<close> takes the first two pieces; \<open>decimal\<close> is
  undefined when there is one piece only, and the test \<open>decimal ? ... : ...\<close> is false of
  the undefined and of the empty string alike.
\<close>

definition formatDisplayValue :: "string \<Rightarrow> string" where
  "formatDisplayValue v =
     (if includes_str v ''Infinity'' then ''Error''
      else
        (case split_str CHR ''.'' v of
           [] \<Rightarrow> toLocaleString NaN
         | [integer] \<Rightarrow> toLocaleString (parseFloat integer)
         | integer # decimal # rest \<Rightarrow>
             (let formattedInteger = toLocaleString (parseFloat integer)
              in if decimal \<noteq> [] then formattedInteger @ ''.'' @ decimal
                 else formattedInteger)))"

text \<open>
  Each handler reads the state of the current render and calls \<open>setState\<close> at most once, so
  it is a function from the state to the next state; a handler that returns without calling
  \<open>setState\<close> returns the state it was given.
\<close>

definition clearAll :: "CalculatorState \<Rightarrow> CalculatorState" where
  "clearAll state = initialState"

definition inputDigit :: "string \<Rightarrow> CalculatorState \<Rightarrow> CalculatorState" where
  "inputDigit digit state =
     (if waitingForOperand state then state\<lparr>displayValue := digit, waitingForOperand := False\<rparr>
      else if length (displayValue state) \<ge> 15 then state
      else state\<lparr>displayValue :=
             (if displayValue state = ''0'' then digit else displayValue state @ digit)\<rparr>)"

definition inputDecimal :: "CalculatorState \<Rightarrow> CalculatorState" where
  "inputDecimal state =
     (if waitingForOperand state then state\<lparr>displayValue := ''0.'', waitingForOperand := False\<rparr>
      else if \<not> includes_str (displayValue state) ''.''
        then state\<lparr>displayValue := displayValue state @ ''.''\<rparr>
      else state)"

definition performOperation :: "Operation \<Rightarrow> CalculatorState \<Rightarrow> CalculatorState" where
  "performOperation nextOperation state =
     (let inputValue = parseFloat (displayValue state)
      in case previousValue state of
           None \<Rightarrow>
             state\<lparr>previousValue := Some inputValue,
                   waitingForOperand := True,
                   operation := Some nextOperation,
                   history := formatDisplayValue (displayValue state) @ '' '' @ symbol nextOperation\<rparr>
         | Some prev \<Rightarrow>
             (case operation state of
                None \<Rightarrow> state
              | Some op \<Rightarrow>
                  (let result = calculate prev inputValue op;
                       resultString = String result
                   in state\<lparr>previousValue := Some result,
                            displayValue := resultString,
                            waitingForOperand := True,
                            operation := Some nextOperation,
                            history := formatDisplayValue resultString @ '' '' @ symbol nextOperation\<rparr>)))"

definition performEquals :: "CalculatorState \<Rightarrow> CalculatorState" where
  "performEquals state =
     (let inputValue = parseFloat (displayValue state)
      in case (operation state, previousValue state) of
           (Some op, Some prev) \<Rightarrow>
             (let result = calculate prev inputValue op;
                  resultString = String result
              in initialState\<lparr>displayValue := resultString\<rparr>)
         | _ \<Rightarrow> state)"

text \<open>\<open>label as Operation\<close>, for the four labels that pass the test before the cast.\<close>

definition as_Operation :: "string \<Rightarrow> Operation" where
  "as_Operation label =
     (if label = divide_label then Divide
      else if label = times_label then Multiply
      else if label = ''-'' then Subtract
      else Add)"

definition handleButtonClick :: "string \<Rightarrow> CalculatorState \<Rightarrow> CalculatorState" where
  "handleButtonClick label state =
     (if includes_str ''0123456789'' label then inputDigit label state
      else if label = ''.'' then inputDecimal state
      else if label = ''AC'' then clearAll state
      else if label \<in> set [divide_label, times_label, ''-'', ''+'']
        then performOperation (as_Operation label) state
      else if label = ''='' then performEquals state
      else state)"

text \<open>The state after a sequence of button presses, and the states the calculator reaches.\<close>

definition dispatch_all :: "string list \<Rightarrow> CalculatorState \<Rightarrow> CalculatorState" where
  "dispatch_all labels state = foldl (\<lambda>s label. handleButtonClick label s) state labels"

inductive reachable :: "CalculatorState \<Rightarrow> bool" where
  initial: "reachable initialState"
| click: "reachable s \<Longrightarrow> reachable (handleButtonClick label s)"

section \<open>Properties stated by the specification\<close>

text \<open>The pending operand and the pending operator are both present or both absent.\<close>

definition paired :: "CalculatorState \<Rightarrow> bool" where
  "paired s = ((previousValue s = None) = (operation s = None))"

text \<open>A display buffer with at most one decimal point.\<close>

definition one_point :: "string \<Rightarrow> bool" where
  "one_point s = (count_list s CHR ''.'' \<le> 1)"

text \<open>
  Leading-zero collapsing of a typed digit sequence, in the words of the specification: the
  zeros at the start are dropped, and a sequence with nothing else shows as \<open>0\<close>.
\<close>

definition collapse_zeros :: "string \<Rightarrow> string" where
  "collapse_zeros ds =
     (if dropWhile (\<lambda>c. c = CHR ''0'') ds = [] then ''0''
      else dropWhile (\<lambda>c. c = CHR ''0'') ds)"

section \<open>Strings and the dispatcher\<close>

lemma includes_single: "includes_str s [c] = (c \<in> set s)"
  by (induction s) auto

lemma includes_subset: "includes_str s t \<Longrightarrow> set t \<subseteq> set s"
proof (induction s)
  case Nil
  then show ?case by simp
next
  case (Cons c s)
  from Cons.prems have "prefix t (c # s) \<or> includes_str s t" by simp
  then show ?case
  proof
    assume "prefix t (c # s)"
    then show ?thesis by (rule set_mono_prefix)
  next
    assume "includes_str s t"
    then have "set t \<subseteq> set s" by (rule Cons.IH)
    then show ?thesis by auto
  qed
qed

lemma digit_click: "d \<in> set ''0123456789'' \<Longrightarrow> handleButtonClick [d] s = inputDigit [d] s"
  by (simp only: handleButtonClick_def includes_single if_True)

lemma decimal_click: "handleButtonClick ''.'' s = inputDecimal s"
  by (simp add: handleButtonClick_def)

lemma operation_click: "handleButtonClick (symbol op) s = performOperation op s"
  by (cases op)
     (simp_all add: handleButtonClick_def as_Operation_def times_label_def divide_label_def)

lemma times_click: "handleButtonClick times_label s = performOperation Multiply s"
  using operation_click [of Multiply s] by simp

lemma plus_click: "handleButtonClick ''+'' s = performOperation Add s"
  using operation_click [of Add s] by simp

lemma divide_click: "handleButtonClick divide_label s = performOperation Divide s"
  using operation_click [of Divide s] by simp

lemma equals_click: "handleButtonClick ''='' s = performEquals s"
  by (simp add: handleButtonClick_def times_label_def divide_label_def)

lemma dispatch_all_snoc:
  "dispatch_all (ls @ [l]) s = handleButtonClick l (dispatch_all ls s)"
  by (simp add: dispatch_all_def)

section \<open>Arithmetic on small whole numbers\<close>

text \<open>A positive whole number below \<open>2 ^ 53\<close> is a binary64 value: rounding leaves it as it is.\<close>

lemma ndigits_le: "n < 2 ^ k \<Longrightarrow> ndigits 2 n \<le> k"
proof (induction k arbitrary: n)
  case 0
  then show ?case by (subst ndigits.simps) simp
next
  case (Suc k)
  then have "n div 2 < 2 ^ k" by simp
  then have "ndigits 2 (n div 2) \<le> k" by (rule Suc.IH)
  then show ?case by (subst ndigits.simps) simp
qed

lemma ndigits_pos: "0 < n \<Longrightarrow> 0 < ndigits 2 n"
  by (subst ndigits.simps) simp

lemma round_half_even_int: "round_half_even (of_int z) = z"
  by (simp add: round_half_even_def)

lemma round64_nat:
  assumes "0 < n" and "n < 2 ^ 53"
  shows "round64 sg (of_nat n) = Fin sg (of_nat n)"
proof -
  define j where "j = 53 - ndigits 2 n"
  have le: "ndigits 2 n \<le> 53" using assms(2) by (rule ndigits_le)
  have pos: "0 < ndigits 2 n" using assms(1) by (rule ndigits_pos)
  have il: "ilog 2 (of_nat n) = int (ndigits 2 n) - 1"
    using assms(1) by (simp add: ilog_def)
  have e: "max (ilog 2 (of_nat n) - 52) (- 1074) = - int j"
    using le pos by (simp add: il j_def)
  have p: "(2::rat) powi (- int j) = 1 / 2 ^ j"
    by (simp add: power_int_minus field_simps)
  have q: "rat_of_nat n / (1 / 2 ^ j) = of_int (int n * 2 ^ j)"
    by simp
  have big: "\<not> (2::rat) ^ 1024 \<le> of_nat n"
  proof -
    have "rat_of_nat n < of_nat (2 ^ 53)" using assms(2) by (simp only: of_nat_less_iff)
    also have "\<dots> \<le> 2 ^ 1024" by simp
    finally show ?thesis by simp
  qed
  show ?thesis
    unfolding round64_def e p q round_half_even_int Let_def
    using assms(1) big by simp
qed

lemma round64_numeral:
  "numeral w < (2::nat) ^ 53 \<Longrightarrow> round64 sg (numeral w) = Fin sg (numeral w)"
  using round64_nat [of "numeral w" sg] by simp

lemma floor_rat_numeral:
  "\<lfloor>(numeral a :: rat) / numeral b\<rfloor> = numeral a div numeral b"
  using floor_divide_of_int_eq [of "numeral a" "numeral b", where ?'a = rat] by simp

lemma digits10_16: "digits10 16 = ''16''"
  by (simp add: digits10.simps digit_char_def)

lemma digits10_8: "digits10 8 = ''8''"
  by (simp add: digits10.simps digit_char_def)

lemma group3_short: "length ds \<le> 3 \<Longrightarrow> group3 ds = ds"
  by (subst group3.simps) simp

lemma half_up_nat: "nat \<lfloor>rat_of_nat n + 1 / 2\<rfloor> = n"
proof -
  have "\<lfloor>rat_of_nat n + 1 / 2\<rfloor> = int n"
    by (rule floor_unique) simp_all
  then show ?thesis by simp
qed

lemma white_space_heads:
  "w \<in> set white_space \<Longrightarrow>
   w \<noteq> [] \<and> hd w \<in> set [CHR 0x09, CHR 0x0A, CHR 0x0B, CHR 0x0C, CHR 0x0D, CHR 0x20,
              CHR 0xC2, CHR 0xE1, CHR 0xE2, CHR 0xE3, CHR 0xEF]"
  by (auto simp: white_space_def)

lemma trimStart_digit:
  assumes "is_digit c"
  shows "trimStart (c # s) = c # s"
proof -
  have "\<not> prefix w (c # s)" if "w \<in> set white_space" for w
  proof
    assume p: "prefix w (c # s)"
    from that have w: "w \<noteq> []" and h: "hd w \<in> set [CHR 0x09, CHR 0x0A, CHR 0x0B, CHR 0x0C,
        CHR 0x0D, CHR 0x20, CHR 0xC2, CHR 0xE1, CHR 0xE2, CHR 0xE3, CHR 0xEF]"
      using white_space_heads by blast+
    from w p have "hd w = c" by (cases w) auto
    with h assms show False by (auto simp: is_digit_def)
  qed
  then have "find (\<lambda>w. prefix w (c # s)) white_space = None"
    by (simp add: find_None_iff)
  then show ?thesis by (subst trimStart.simps) simp
qed

lemma parseFloat_0: "parseFloat ''0'' = Fin False 0"
  by (simp add: parseFloat_def trimStart_digit is_digit_def digits_value_def digit_value_def
      exponent_part_def round64_def)

lemma parseFloat_5: "parseFloat ''5'' = Fin False 5"
  by (simp add: parseFloat_def trimStart_digit is_digit_def digits_value_def digit_value_def
      exponent_part_def round64_numeral)

lemma parseFloat_16: "parseFloat ''16'' = Fin False 16"
  by (simp add: parseFloat_def trimStart_digit is_digit_def digits_value_def digit_value_def
      exponent_part_def round64_numeral)

lemma ilog10_8: "ilog 10 8 = 0"
  by (simp add: ilog_def ndigits.simps)

lemma ilog10_16: "ilog 10 16 = 1"
  by (simp add: ilog_def ndigits.simps)

lemma shortest_8: "shortest 1 8 = (8, 0)"
  by (subst shortest.simps) (simp add: ilog10_8 round64_numeral Let_def)

lemma strip_zeros_8: "strip_zeros 8 0 = (8, 0)"
  by (subst strip_zeros.simps) simp

lemma format_decimal_8: "format_decimal 8 0 = ''8''"
  by (simp add: format_decimal_def digits10_8)

lemma String_8: "String (Fin False 8) = ''8''"
  by (simp add: String_def shortest_8 strip_zeros_8 format_decimal_8 del: One_nat_def)

lemma shortest_16: "shortest 1 16 = (16, 0)"
  apply (subst shortest.simps)
  apply (simp add: ilog10_16 round64_numeral floor_rat_numeral Let_def)
  apply (subst shortest.simps)
  apply (simp add: ilog10_16 round64_numeral floor_rat_numeral Let_def)
  done

lemma strip_zeros_16: "strip_zeros 16 0 = (16, 0)"
  by (subst strip_zeros.simps) simp

lemma toLocaleString_16: "toLocaleString (Fin False 16) = ''16''"
  using half_up_nat [of 16]
  by (simp add: toLocaleString_def shortest_16 strip_zeros_16 digits10_16 group3_short
      del: One_nat_def)

lemma format_decimal_16: "format_decimal 16 0 = ''16''"
  by (simp add: format_decimal_def digits10_16)

lemma String_16: "String (Fin False 16) = ''16''"
  by (simp add: String_def shortest_16 strip_zeros_16 format_decimal_16 del: One_nat_def)

section \<open>Chaining\<close>

lemma parseFloat_3: "parseFloat ''3'' = Fin False 3"
  by (simp add: parseFloat_def trimStart_digit is_digit_def digits_value_def digit_value_def
      exponent_part_def round64_numeral)

lemma parseFloat_2: "parseFloat ''2'' = Fin False 2"
  by (simp add: parseFloat_def trimStart_digit is_digit_def digits_value_def digit_value_def
      exponent_part_def round64_numeral)

lemma five_plus_three: "calculate (Fin False 5) (Fin False 3) Add = Fin False 8"
  by (simp add: signed_def round64_numeral)

lemma eight_times_two: "calculate (Fin False 8) (Fin False 2) Multiply = Fin False 16"
  by (simp add: round64_numeral)

lemma render_16: "formatDisplayValue ''16'' = ''16''"
  by (simp add: formatDisplayValue_def parseFloat_16 toLocaleString_16)

text \<open>
  C1. From the initial state the tokens \<open>5\<close>, \<open>+\<close>, \<open>3\<close> and the multiplication key leave
  the display at \<open>8\<close> with 8 as the pending operand and multiplication pending: the sum is
  resolved when the operator is pressed. After \<open>2\<close> and \<open>=\<close> the main display renders as
  \<open>16\<close>.
\<close>

theorem chaining_resolves_eagerly:
  "displayValue (dispatch_all [''5'', ''+'', ''3'', times_label] initialState) = ''8'' \<and>
   previousValue (dispatch_all [''5'', ''+'', ''3'', times_label] initialState) = Some (Fin False 8) \<and>
   operation (dispatch_all [''5'', ''+'', ''3'', times_label] initialState) = Some Multiply \<and>
   formatDisplayValue
     (displayValue (dispatch_all [''5'', ''+'', ''3'', times_label, ''2'', ''=''] initialState)) = ''16''"
proof -
  define s1 where "s1 = handleButtonClick ''5'' initialState"
  define s2 where "s2 = handleButtonClick ''+'' s1"
  define s3 where "s3 = handleButtonClick ''3'' s2"
  define s4 where "s4 = handleButtonClick times_label s3"
  define s5 where "s5 = handleButtonClick ''2'' s4"
  define s6 where "s6 = handleButtonClick ''='' s5"
  have d1: "displayValue s1 = ''5''" and p1: "previousValue s1 = None"
    by (simp_all add: s1_def handleButtonClick_def inputDigit_def initialState_def)
  have d2: "displayValue s2 = ''5''" and p2: "previousValue s2 = Some (Fin False 5)"
    and o2: "operation s2 = Some Add" and w2: "waitingForOperand s2"
    by (simp_all add: s2_def plus_click performOperation_def d1 p1 parseFloat_5)
  have d3: "displayValue s3 = ''3''" and p3: "previousValue s3 = Some (Fin False 5)"
    and o3: "operation s3 = Some Add" and w3: "\<not> waitingForOperand s3"
    by (simp_all add: s3_def handleButtonClick_def inputDigit_def w2 p2 o2)
  have d4: "displayValue s4 = ''8''" and p4: "previousValue s4 = Some (Fin False 8)"
    and o4: "operation s4 = Some Multiply" and w4: "waitingForOperand s4"
    by (simp_all add: s4_def times_click performOperation_def d3 p3 o3 parseFloat_3
        five_plus_three String_8 Let_def del: calculate.simps)
  have d5: "displayValue s5 = ''2''" and p5: "previousValue s5 = Some (Fin False 8)"
    and o5: "operation s5 = Some Multiply"
    by (simp_all add: s5_def handleButtonClick_def inputDigit_def w4 p4 o4)
  have d6: "displayValue s6 = ''16''"
    by (simp add: s6_def equals_click performEquals_def d5 p5 o5 parseFloat_2
        eight_times_two String_16 Let_def del: calculate.simps)
  have a: "dispatch_all [''5'', ''+'', ''3'', times_label] initialState = s4"
    by (simp add: dispatch_all_def s1_def s2_def s3_def s4_def)
  have b: "dispatch_all [''5'', ''+'', ''3'', times_label, ''2'', ''=''] initialState = s6"
    by (simp add: dispatch_all_def s1_def s2_def s3_def s4_def s5_def s6_def)
  show ?thesis
    by (simp add: a b d4 p4 o4 d6 render_16)
qed

section \<open>Division by zero\<close>

lemma trimStart_NaN: "trimStart ''NaN'' = ''NaN''"
  by (simp add: trimStart.simps white_space_def)

lemma parseFloat_NaN: "parseFloat ''NaN'' = NaN"
  by (simp add: parseFloat_def trimStart_NaN is_digit_def)

lemma render_infinity: "formatDisplayValue (String (Inf sg)) = ''Error''"
  by (cases sg) (simp_all add: String_def formatDisplayValue_def)

text \<open>
  C2. For every number \<open>a\<close>, dividing by zero (of either sign) returns the sentinel
  \<open>Infinity\<close> as a value, and a state whose display buffer holds the string of the sentinel
  is rendered as the error marker \<open>Error\<close>.
\<close>

theorem divide_by_zero_gives_sentinel:
  "calculate a (Fin sg 0) Divide = Infinity \<and>
   formatDisplayValue (displayValue (st\<lparr>displayValue := String Infinity\<rparr>)) = ''Error''"
  by (simp add: String_def formatDisplayValue_def)

lemma render_NaN: "formatDisplayValue ''NaN'' = ''NaN''"
  by (simp add: formatDisplayValue_def parseFloat_NaN toLocaleString_def)

text \<open>The keys \<open>1\<close>, divide, \<open>0\<close>, times, \<open>0\<close>, \<open>=\<close>: the sentinel, and then \<open>NaN\<close>.\<close>

lemma sentinel_lost_trace:
  "previousValue (dispatch_all [''1'', divide_label, ''0'', times_label] initialState) =
     Some Infinity \<and>
   displayValue (dispatch_all [''1'', divide_label, ''0'', times_label, ''0'', ''='']
     initialState) = ''NaN''"
proof -
  define s1 where "s1 = handleButtonClick ''1'' initialState"
  define s2 where "s2 = handleButtonClick divide_label s1"
  define s3 where "s3 = handleButtonClick ''0'' s2"
  define s4 where "s4 = handleButtonClick times_label s3"
  define s5 where "s5 = handleButtonClick ''0'' s4"
  define s6 where "s6 = handleButtonClick ''='' s5"
  have p1: "previousValue s1 = None"
    by (simp add: s1_def handleButtonClick_def inputDigit_def initialState_def)
  have p2: "\<exists>a. previousValue s2 = Some a" and o2: "operation s2 = Some Divide"
    and w2: "waitingForOperand s2"
    by (simp_all add: s2_def divide_click performOperation_def p1)
  then obtain a where a: "previousValue s2 = Some a" by blast
  have d3: "displayValue s3 = ''0''" and p3: "previousValue s3 = Some a"
    and o3: "operation s3 = Some Divide"
    by (simp_all add: s3_def handleButtonClick_def inputDigit_def w2 a o2)
  have p4: "previousValue s4 = Some Infinity"
    and o4: "operation s4 = Some Multiply" and w4: "waitingForOperand s4"
    by (simp_all add: s4_def times_click performOperation_def d3 p3 o3 parseFloat_0 Let_def)
  have d5: "displayValue s5 = ''0''" and p5: "previousValue s5 = Some Infinity"
    and o5: "operation s5 = Some Multiply"
    by (simp_all add: s5_def handleButtonClick_def inputDigit_def w4 p4 o4)
  have d6: "displayValue s6 = ''NaN''"
    by (simp add: s6_def equals_click performEquals_def d5 p5 o5 parseFloat_0
        String_def Let_def)
  have x: "dispatch_all [''1'', divide_label, ''0'', times_label] initialState = s4"
    by (simp add: dispatch_all_def s1_def s2_def s3_def s4_def)
  have y: "dispatch_all [''1'', divide_label, ''0'', times_label, ''0'', ''=''] initialState = s6"
    by (simp add: dispatch_all_def s1_def s2_def s3_def s4_def s5_def s6_def)
  show ?thesis
    by (simp add: x y p4 d6)
qed

text \<open>
  C3, as stated, fails: the sentinel times zero is \<open>NaN\<close>, not the sentinel, and the display
  then renders \<open>NaN\<close>, not the error marker. The keys \<open>1\<close>, divide, \<open>0\<close>, times, \<open>0\<close>,
  \<open>=\<close> lead there: the sentinel is the pending operand after the fourth key, and the
  display after the last one renders as \<open>NaN\<close>.
\<close>

theorem sentinel_times_zero_is_NaN:
  "calculate Infinity (Fin False 0) Multiply \<noteq> Infinity \<and>
   formatDisplayValue (String (calculate Infinity (Fin False 0) Multiply)) \<noteq> ''Error'' \<and>
   previousValue (dispatch_all [''1'', divide_label, ''0'', times_label] initialState) =
     Some Infinity \<and>
   formatDisplayValue (displayValue
     (dispatch_all [''1'', divide_label, ''0'', times_label, ''0'', ''=''] initialState)) = ''NaN''"
  by (simp add: sentinel_lost_trace render_NaN String_def)

text \<open>
  C3, amended. \<open>calculate\<close> on the sentinel and a second operand \<open>y\<close> yields the sentinel
  again exactly in these cases: under add, when \<open>y\<close> is neither \<open>NaN\<close> nor the negative
  infinity; under subtract, when \<open>y\<close> is neither \<open>NaN\<close> nor the positive infinity; under
  multiply, when \<open>y\<close> is the positive infinity or a positive finite number; under divide, when
  \<open>y\<close> is a zero of either sign or a positive finite number. It yields the negative infinity
  exactly when a negative number other than zero multiplies or a negative finite number other
  than zero divides. In every other case it yields \<open>NaN\<close>, so the result is never finite. An
  infinity of either sign is rendered as the error marker, and \<open>NaN\<close> is rendered as \<open>NaN\<close>.
\<close>

theorem sentinel_propagates:
  "(calculate Infinity y op = Infinity) =
     (case op of
        Add \<Rightarrow> y \<noteq> NaN \<and> y \<noteq> Inf True
      | Subtract \<Rightarrow> y \<noteq> NaN \<and> y \<noteq> Infinity
      | Multiply \<Rightarrow> y = Infinity \<or> (\<exists>b. b \<noteq> 0 \<and> y = Fin False b)
      | Divide \<Rightarrow> (\<exists>sg. y = Fin sg 0) \<or> (\<exists>b. y = Fin False b)) \<and>
   (calculate Infinity y op = Inf True) =
     (case op of
        Add \<Rightarrow> False
      | Subtract \<Rightarrow> False
      | Multiply \<Rightarrow> y = Inf True \<or> (\<exists>b. b \<noteq> 0 \<and> y = Fin True b)
      | Divide \<Rightarrow> (\<exists>b. b \<noteq> 0 \<and> y = Fin True b)) \<and>
   (calculate Infinity y op = Infinity \<or> calculate Infinity y op = Inf True \<or>
    calculate Infinity y op = NaN) \<and>
   formatDisplayValue (String Infinity) = ''Error'' \<and>
   formatDisplayValue (String (Inf True)) = ''Error'' \<and>
   formatDisplayValue (String NaN) = ''NaN''"
proof -
  have keeps: "(calculate Infinity y op = Infinity) =
     (case op of
        Add \<Rightarrow> y \<noteq> NaN \<and> y \<noteq> Inf True
      | Subtract \<Rightarrow> y \<noteq> NaN \<and> y \<noteq> Infinity
      | Multiply \<Rightarrow> y = Infinity \<or> (\<exists>b. b \<noteq> 0 \<and> y = Fin False b)
      | Divide \<Rightarrow> (\<exists>sg. y = Fin sg 0) \<or> (\<exists>b. y = Fin False b))"
    by (cases op; cases y) (auto simp: js_sub_def)
  have flips: "(calculate Infinity y op = Inf True) =
     (case op of
        Add \<Rightarrow> False
      | Subtract \<Rightarrow> False
      | Multiply \<Rightarrow> y = Inf True \<or> (\<exists>b. b \<noteq> 0 \<and> y = Fin True b)
      | Divide \<Rightarrow> (\<exists>b. b \<noteq> 0 \<and> y = Fin True b))"
    by (cases op; cases y) (auto simp: js_sub_def)
  have never_finite: "calculate Infinity y op = Infinity \<or> calculate Infinity y op = Inf True \<or>
      calculate Infinity y op = NaN"
    by (cases op; cases y) (auto simp: js_sub_def)
  have shown: "formatDisplayValue (String Infinity) = ''Error''"
      "formatDisplayValue (String (Inf True)) = ''Error''"
      "formatDisplayValue (String NaN) = ''NaN''"
    using render_infinity [of False] render_infinity [of True] render_NaN
    by (simp_all add: String_def)
  from keeps flips never_finite shown show ?thesis by blast
qed

theorem sentinel_propagates_witness:
  "calculate Infinity (Fin False 0) Add = Infinity \<and>
   calculate Infinity (Fin True 3) Subtract = Infinity \<and>
   calculate Infinity (Fin True 0) Divide = Infinity \<and>
   calculate Infinity (Fin False 2) Multiply = Infinity \<and>
   calculate Infinity (Fin True 2) Multiply = Inf True \<and>
   calculate Infinity (Fin True 2) Multiply \<noteq> Infinity \<and>
   calculate Infinity Infinity Divide \<noteq> Infinity \<and>
   calculate Infinity Infinity Divide \<noteq> Inf True"
  using sentinel_propagates [of "Fin False 0" Add]
    sentinel_propagates [of "Fin True 3" Subtract]
    sentinel_propagates [of "Fin True 0" Divide]
    sentinel_propagates [of "Fin False 2" Multiply]
    sentinel_propagates [of "Fin True 2" Multiply]
    sentinel_propagates [of Infinity Divide]
  by simp

section \<open>Operators and equals\<close>

text \<open>
  C4, as stated, fails: after \<open>5\<close> and \<open>+\<close> the calculator awaits an operand, and the
  multiplication key then changes the pending operator.
\<close>

theorem second_operator_replaces_pending:
  "waitingForOperand (dispatch_all [''5'', ''+''] initialState) \<and>
   operation (handleButtonClick times_label (dispatch_all [''5'', ''+''] initialState)) \<noteq>
   operation (dispatch_all [''5'', ''+''] initialState)"
  by (simp add: dispatch_all_def handleButtonClick_def inputDigit_def performOperation_def
      initialState_def as_Operation_def times_label_def divide_label_def Let_def)

text \<open>
  C4, amended. For every state in which \<open>waitingForOperand\<close> is true and the pending operand
  and operator are both present or both absent, dispatching an operator token makes that
  operator the pending one.
\<close>

theorem operator_click_sets_pending:
  "waitingForOperand s \<Longrightarrow> paired s \<Longrightarrow>
   operation (handleButtonClick (symbol op) s) = Some op"
  by (auto simp: operation_click performOperation_def paired_def Let_def split: option.splits)

theorem operator_click_sets_pending_witness:
  "waitingForOperand
     \<lparr>displayValue = ''5'', previousValue = Some (Fin False 5), operation = Some Add,
      waitingForOperand = True, history = ''5 +''\<rparr> \<and>
   paired
     \<lparr>displayValue = ''5'', previousValue = Some (Fin False 5), operation = Some Add,
      waitingForOperand = True, history = ''5 +''\<rparr> \<and>
   operation (handleButtonClick (symbol Multiply)
     \<lparr>displayValue = ''5'', previousValue = Some (Fin False 5), operation = Some Add,
      waitingForOperand = True, history = ''5 +''\<rparr>) = Some Multiply"
  using operator_click_sets_pending
    [of "\<lparr>displayValue = ''5'', previousValue = Some (Fin False 5), operation = Some Add,
          waitingForOperand = True, history = ''5 +''\<rparr>" Multiply]
  by (simp add: paired_def)





lemma paired_inputDigit: "paired s \<Longrightarrow> paired (inputDigit d s)"
  by (simp add: paired_def inputDigit_def)

lemma paired_inputDecimal: "paired s \<Longrightarrow> paired (inputDecimal s)"
  by (simp add: paired_def inputDecimal_def)

lemma paired_clearAll: "paired (clearAll s)"
  by (simp add: paired_def clearAll_def initialState_def)

lemma paired_performOperation: "paired s \<Longrightarrow> paired (performOperation op s)"
  by (simp add: paired_def performOperation_def Let_def split: option.splits)

lemma paired_performEquals: "paired s \<Longrightarrow> paired (performEquals s)"
  by (simp add: paired_def performEquals_def Let_def initialState_def split: option.splits)

lemma paired_handleButtonClick: "paired s \<Longrightarrow> paired (handleButtonClick l s)"
  by (simp add: handleButtonClick_def paired_inputDigit paired_inputDecimal paired_clearAll
      paired_performOperation paired_performEquals)

lemma reachable_paired: "reachable s \<Longrightarrow> paired s"
  by (induction rule: reachable.induct)
     (simp_all add: paired_handleButtonClick, simp add: paired_def initialState_def)

text \<open>
  C7. In every reachable state the pending operand and the pending operator are both present
  or both absent, and each transition (digit, decimal point, operator, equals, clear), as
  well as the dispatcher on any label, preserves this.
\<close>

theorem pending_fields_paired:
  "(reachable s \<longrightarrow> paired s) \<and>
   (paired s \<longrightarrow>
      paired (inputDigit d s) \<and> paired (inputDecimal s) \<and> paired (performOperation op s) \<and>
      paired (performEquals s) \<and> paired (clearAll s) \<and> paired (handleButtonClick l s))"
  by (simp add: reachable_paired paired_inputDigit paired_inputDecimal paired_clearAll
      paired_performOperation paired_performEquals paired_handleButtonClick)

theorem pending_fields_paired_witness:
  "reachable (handleButtonClick ''+'' (handleButtonClick ''5'' initialState)) \<and>
   paired (handleButtonClick ''+'' (handleButtonClick ''5'' initialState)) \<and>
   paired (performEquals (handleButtonClick ''+'' (handleButtonClick ''5'' initialState)))"
proof -
  have "reachable (handleButtonClick ''+'' (handleButtonClick ''5'' initialState))"
    by (intro reachable.intros)
  with pending_fields_paired
    [of "handleButtonClick ''+'' (handleButtonClick ''5'' initialState)"]
  show ?thesis by blast
qed

lemma performEquals_idem: "performEquals (performEquals s) = performEquals s"
  by (simp add: performEquals_def Let_def initialState_def split: option.splits)

text \<open>
  C9. For every state, dispatching Equals twice gives the state that dispatching it once
  gives, so the display is unchanged by the second Equals; and from a state whose pending
  fields are paired, no pending operator remains after the first Equals.
\<close>

theorem equals_idempotent:
  "handleButtonClick ''='' (handleButtonClick ''='' s) = handleButtonClick ''='' s \<and>
   (paired s \<longrightarrow> operation (handleButtonClick ''='' s) = None)"
  by (auto simp add: equals_click performEquals_idem performEquals_def paired_def
      initialState_def split: option.splits)

theorem equals_idempotent_witness:
  "paired
     \<lparr>displayValue = ''3'', previousValue = Some (Fin False 5), operation = Some Add,
      waitingForOperand = False, history = ''5 +''\<rparr> \<and>
   operation (handleButtonClick ''=''
     \<lparr>displayValue = ''3'', previousValue = Some (Fin False 5), operation = Some Add,
      waitingForOperand = False, history = ''5 +''\<rparr>) = None"
  using equals_idempotent
    [of "\<lparr>displayValue = ''3'', previousValue = Some (Fin False 5), operation = Some Add,
          waitingForOperand = False, history = ''5 +''\<rparr>"]
  by (simp add: paired_def)

section \<open>Typing digits\<close>

lemma collapse_zeros_snoc:
  "collapse_zeros (ds @ [d]) =
     (if dropWhile (\<lambda>c. c = CHR ''0'') ds = [] then [d] else collapse_zeros ds @ [d])"
  by (auto simp: collapse_zeros_def dropWhile_append dropWhile_eq_Nil_conv)

lemma collapse_zeros_eq_0:
  "collapse_zeros ds = ''0'' \<longleftrightarrow> dropWhile (\<lambda>c. c = CHR ''0'') ds = []"
proof
  assume eq: "collapse_zeros ds = ''0''"
  show "dropWhile (\<lambda>c. c = CHR ''0'') ds = []"
  proof (rule ccontr)
    assume ne: "dropWhile (\<lambda>c. c = CHR ''0'') ds \<noteq> []"
    then have "hd (dropWhile (\<lambda>c. c = CHR ''0'') ds) \<noteq> CHR ''0''"
      by (rule hd_dropWhile)
    moreover from eq ne have "dropWhile (\<lambda>c. c = CHR ''0'') ds = ''0''"
      by (simp only: collapse_zeros_def if_False)
    ultimately show False by simp
  qed
qed (simp add: collapse_zeros_def)

text \<open>One more digit, on the buffer that \<open>inputDigit\<close> keeps: the cap, the lone zero, or append.\<close>

lemma collapse_zeros_step:
  "take 15 (collapse_zeros (ds @ [d])) =
     (if 15 \<le> length (take 15 (collapse_zeros ds)) then take 15 (collapse_zeros ds)
      else if take 15 (collapse_zeros ds) = ''0'' then [d]
      else take 15 (collapse_zeros ds) @ [d])"
proof (cases "15 \<le> length (collapse_zeros ds)")
  case True
  then have "collapse_zeros ds \<noteq> ''0''" by auto
  then have "dropWhile (\<lambda>c. c = CHR ''0'') ds \<noteq> []"
    by (simp only: collapse_zeros_eq_0 not_False_eq_True)
  then have "collapse_zeros (ds @ [d]) = collapse_zeros ds @ [d]"
    by (simp only: collapse_zeros_snoc if_False)
  with True show ?thesis by simp
next
  case False
  then have short: "take 15 (collapse_zeros ds) = collapse_zeros ds" by simp
  show ?thesis
  proof (cases "dropWhile (\<lambda>c. c = CHR ''0'') ds = []")
    case True
    then have "collapse_zeros ds = ''0''" by (simp only: collapse_zeros_eq_0)
    moreover from True have "collapse_zeros (ds @ [d]) = [d]"
      by (simp add: collapse_zeros_snoc)
    ultimately show ?thesis by simp
  next
    case nz: False
    then have "collapse_zeros ds \<noteq> ''0''"
      by (simp only: collapse_zeros_eq_0 not_False_eq_True)
    moreover from nz have "collapse_zeros (ds @ [d]) = collapse_zeros ds @ [d]"
      by (simp only: collapse_zeros_snoc if_False)
    ultimately show ?thesis using False by simp
  qed
qed

lemma inputDigit_typing:
  "\<not> waitingForOperand s \<Longrightarrow>
   inputDigit digit s =
     s\<lparr>displayValue :=
         (if 15 \<le> length (displayValue s) then displayValue s
          else if displayValue s = ''0'' then digit
          else displayValue s @ digit)\<rparr>"
  by (simp add: inputDigit_def)

lemma typed_digits_state:
  "set ds \<subseteq> set ''0123456789'' \<Longrightarrow>
   dispatch_all (map (\<lambda>c. [c]) ds) initialState =
     initialState\<lparr>displayValue := take 15 (collapse_zeros ds)\<rparr>"
proof (induction ds rule: rev_induct)
  case Nil
  show ?case by (simp add: dispatch_all_def collapse_zeros_def initialState_def)
next
  case (snoc d ds)
  then have d: "d \<in> set ''0123456789''" and ds: "set ds \<subseteq> set ''0123456789''"
    by auto
  let ?s = "initialState\<lparr>displayValue := take 15 (collapse_zeros ds)\<rparr>"
  have nw: "\<not> waitingForOperand ?s" by (simp add: initialState_def)
  have "dispatch_all (map (\<lambda>c. [c]) (ds @ [d])) initialState =
      handleButtonClick [d] (dispatch_all (map (\<lambda>c. [c]) ds) initialState)"
    by (simp add: dispatch_all_snoc)
  also have "\<dots> = inputDigit [d] ?s"
    by (simp only: snoc.IH [OF ds] digit_click [OF d])
  also have "\<dots> = ?s\<lparr>displayValue := take 15 (collapse_zeros (ds @ [d]))\<rparr>"
    by (simp only: inputDigit_typing [OF nw] collapse_zeros_step) simp
  also have "\<dots> = initialState\<lparr>displayValue := take 15 (collapse_zeros (ds @ [d]))\<rparr>"
    by simp
  finally show ?case .
qed

text \<open>
  C8, as stated, fails: sixteen digits typed into the fresh state do not all reach the
  display, which keeps fifteen.
\<close>

theorem sixteen_digits_truncated:
  "displayValue (dispatch_all (map (\<lambda>c. [c]) ''1111111111111111'') initialState) \<noteq>
   collapse_zeros ''1111111111111111''"
proof -
  have "set ''1111111111111111'' \<subseteq> set ''0123456789''" by simp
  from typed_digits_state [OF this] show ?thesis by (simp add: collapse_zeros_def)
qed

text \<open>
  C8, amended. For every sequence of digit tokens dispatched into the initial state, the
  display buffer is the typed sequence with leading-zero collapsing applied, cut to its first
  15 characters.
\<close>

theorem typed_digits_display:
  "set ds \<subseteq> set ''0123456789'' \<Longrightarrow>
   displayValue (dispatch_all (map (\<lambda>c. [c]) ds) initialState) = take 15 (collapse_zeros ds)"
  by (simp add: typed_digits_state)

theorem typed_digits_display_witness:
  "set ''05'' \<subseteq> set ''0123456789'' \<and>
   displayValue (dispatch_all (map (\<lambda>c. [c]) ''05'') initialState) = ''5''"
  using typed_digits_display [of "''05''"] by (simp add: collapse_zeros_def)

lemma fifteen_digits_then_plus:
  "dispatch_all (map (\<lambda>c. [c]) ''123456789012345'' @ [''+'']) initialState =
     performOperation Add (initialState\<lparr>displayValue := ''123456789012345''\<rparr>)"
proof -
  have "set ''123456789012345'' \<subseteq> set ''0123456789''" by simp
  from typed_digits_state [OF this] show ?thesis
    by (simp only: dispatch_all_snoc plus_click) (simp add: collapse_zeros_def)
qed

text \<open>
  C10, as stated, fails: after fifteen digits and the key \<open>+\<close> the buffer is still exactly
  those 15 digits, but the calculator awaits an operand, and the decimal-point token then
  replaces the buffer by \<open>0.\<close> instead of appending to it.
\<close>

theorem decimal_when_waiting_replaces:
  "displayValue (dispatch_all (map (\<lambda>c. [c]) ''123456789012345'' @ [''+'']) initialState) =
     ''123456789012345'' \<and>
   length (displayValue (handleButtonClick ''.''
     (dispatch_all (map (\<lambda>c. [c]) ''123456789012345'' @ [''+'']) initialState))) \<noteq> 16"
  by (simp only: fifteen_digits_then_plus decimal_click)
     (simp add: performOperation_def inputDecimal_def initialState_def Let_def)

text \<open>
  C10, amended. In a state that is not awaiting an operand, a digit token is dropped once the
  buffer has 15 characters or more, while the decimal-point token checks no length: from
  such a state whose buffer is exactly 15 digits long it appends the point, and the buffer
  has 16 characters.
\<close>

theorem decimal_ignores_length_cap:
  "(\<not> waitingForOperand s \<and> 15 \<le> length (displayValue s) \<and> d \<in> set ''0123456789''
      \<longrightarrow> handleButtonClick [d] s = s) \<and>
   (\<not> waitingForOperand s \<and> length (displayValue s) = 15 \<and>
    set (displayValue s) \<subseteq> set ''0123456789''
      \<longrightarrow> displayValue (handleButtonClick ''.'' s) = displayValue s @ ''.'' \<and>
          length (displayValue (handleButtonClick ''.'' s)) = 16)"
  by (auto simp: digit_click decimal_click inputDigit_def inputDecimal_def includes_single)

theorem decimal_ignores_length_cap_witness:
  "handleButtonClick ''7'' (initialState\<lparr>displayValue := ''123456789012345''\<rparr>) =
     initialState\<lparr>displayValue := ''123456789012345''\<rparr> \<and>
   displayValue (handleButtonClick ''.'' (initialState\<lparr>displayValue := ''123456789012345''\<rparr>)) =
     ''123456789012345.''"
  using decimal_ignores_length_cap
    [of "initialState\<lparr>displayValue := ''123456789012345''\<rparr>" "CHR ''7''"]
  by (simp add: initialState_def)

section \<open>The decimal point\<close>

lemma digit_char_digit: "d < 10 \<Longrightarrow> digit_char d \<in> set ''0123456789''"
  unfolding digit_char_def by (rule nth_mem) simp

lemma digits10_digits: "set (digits10 n) \<subseteq> set ''0123456789''"
proof (induction n rule: digits10.induct)
  case (1 n)
  show ?case
  proof (cases "n < 10")
    case True
    then show ?thesis
      using digit_char_digit [of n] by (subst digits10.simps) simp
  next
    case False
    have "n mod 10 < 10" by simp
    then have "digit_char (n mod 10) \<in> set ''0123456789''" by (rule digit_char_digit)
    with False "1.IH" show ?thesis
      by (subst digits10.simps) simp
  qed
qed

lemma digits10_no_point: "count_list (digits10 n) CHR ''.'' = 0"
proof -
  have "CHR ''.'' \<notin> set ''0123456789''" by simp
  with digits10_digits [of n] have "CHR ''.'' \<notin> set (digits10 n)" by blast
  then show ?thesis by (rule count_notin)
qed

lemma count_list_take_drop:
  "count_list xs c = 0 \<Longrightarrow> count_list (take n xs) c = 0 \<and> count_list (drop n xs) c = 0"
  by (metis append_take_drop_id count_list_append add_is_0)

lemma count_list_replicate_other: "c \<noteq> d \<Longrightarrow> count_list (replicate n d) c = 0"
  by (simp add: count_list_0_iff)

lemma format_decimal_points: "one_point (format_decimal s e)"
  using count_list_take_drop [OF digits10_no_point]
  by (simp add: one_point_def format_decimal_def Let_def digits10_no_point
      count_list_replicate_other)

text \<open>Whatever the number, its string has at most one decimal point.\<close>

lemma String_points: "one_point (String x)"
proof (cases x)
  case (Fin sg a)
  obtain s e where se: "shortest 1 a = (s, e)" by (cases "shortest 1 a")
  obtain s' e' where se': "strip_zeros s e = (s', e')" by (cases "strip_zeros s e")
  have "one_point (format_decimal s' e')" by (rule format_decimal_points)
  then show ?thesis
    by (simp add: Fin String_def se se' one_point_def del: One_nat_def)
qed (simp_all add: String_def one_point_def)

lemma includes_point: "includes_str s ''.'' = (count_list s CHR ''.'' \<noteq> 0)"
  by (simp add: includes_single count_list_0_iff)

lemma inputDigit_points:
  assumes "includes_str ''0123456789'' l" and "one_point (displayValue s)"
  shows "one_point (displayValue (inputDigit l s))"
proof -
  from assms(1) have "set l \<subseteq> set ''0123456789''" by (rule includes_subset)
  then have "CHR ''.'' \<notin> set l" by auto
  then have "count_list l CHR ''.'' = 0" by (rule count_notin)
  with assms(2) show ?thesis by (simp add: inputDigit_def one_point_def)
qed

lemma inputDecimal_points:
  "one_point (displayValue s) \<Longrightarrow> one_point (displayValue (inputDecimal s))"
  by (simp add: inputDecimal_def includes_point one_point_def)

lemma performOperation_points:
  "one_point (displayValue s) \<Longrightarrow> one_point (displayValue (performOperation op s))"
  by (simp add: performOperation_def Let_def String_points split: option.splits)

lemma performEquals_points:
  "one_point (displayValue s) \<Longrightarrow> one_point (displayValue (performEquals s))"
  by (simp add: performEquals_def Let_def String_points split: option.splits)

lemma handleButtonClick_points:
  "one_point (displayValue s) \<Longrightarrow> one_point (displayValue (handleButtonClick l s))"
  by (simp add: handleButtonClick_def inputDigit_points inputDecimal_points
      performOperation_points performEquals_points clearAll_def initialState_def
      del: includes_str.simps)
     (simp add: one_point_def)

lemma reachable_points: "reachable s \<Longrightarrow> one_point (displayValue s)"
  by (induction rule: reachable.induct)
     (simp_all add: handleButtonClick_points, simp add: initialState_def one_point_def)

lemma inputDecimal_idem: "inputDecimal (inputDecimal s) = inputDecimal s"
  by (simp add: inputDecimal_def includes_single)

lemma decimal_clicks: "(handleButtonClick ''.'' ^^ Suc n) s = handleButtonClick ''.'' s"
  by (induction n) (simp_all add: decimal_click inputDecimal_idem)

lemma inputDecimal_adds_one:
  "count_list (displayValue (inputDecimal s)) CHR ''.'' \<le>
   count_list (displayValue s) CHR ''.'' + 1"
  by (simp add: inputDecimal_def)

text \<open>
  C6. In every state reached from the initial state by any sequence of button labels, the
  display buffer has at most one decimal point; and from any state, the decimal-point token
  dispatched any number of times in a row adds at most one point to the buffer.
\<close>

theorem display_at_most_one_point:
  "(reachable s \<longrightarrow> count_list (displayValue s) CHR ''.'' \<le> 1) \<and>
   count_list (displayValue ((handleButtonClick ''.'' ^^ n) s)) CHR ''.'' \<le>
     count_list (displayValue s) CHR ''.'' + 1"
proof
  show "reachable s \<longrightarrow> count_list (displayValue s) CHR ''.'' \<le> 1"
    using reachable_points [of s] by (simp add: one_point_def)
  show "count_list (displayValue ((handleButtonClick ''.'' ^^ n) s)) CHR ''.'' \<le>
     count_list (displayValue s) CHR ''.'' + 1"
  proof (cases n)
    case 0
    then show ?thesis by simp
  next
    case (Suc m)
    then show ?thesis
      by (simp only: decimal_clicks decimal_click inputDecimal_adds_one)
  qed
qed

theorem display_at_most_one_point_witness:
  "reachable (handleButtonClick ''.'' (handleButtonClick ''.'' initialState)) \<and>
   count_list (displayValue (handleButtonClick ''.'' (handleButtonClick ''.'' initialState)))
     CHR ''.'' \<le> 1"
proof -
  have "reachable (handleButtonClick ''.'' (handleButtonClick ''.'' initialState))"
    by (intro reachable.intros)
  with display_at_most_one_point
    [of "handleButtonClick ''.'' (handleButtonClick ''.'' initialState)"]
  show ?thesis by blast
qed

end
